theory Spec2Isabelle
  imports Main
begin

section \<open>Vocabularies of the host framework and of the Redfish client\<close>

text \<open>
  The adapter translates between constants of two libraries. Each group of constants is an
  enumeration of pairwise different values; the last constructor of each stands for every
  value the adapter's tables do not mention (the source accepts "any power state from
  ironic.common.states", and the client may report values the adapter does not know).
\<close>

datatype power_state = POWER_ON | POWER_OFF | REBOOT | OTHER_STATE string

datatype system_power_state =
    SYSTEM_POWER_STATE_ON
  | SYSTEM_POWER_STATE_POWERING_ON
  | SYSTEM_POWER_STATE_OFF
  | SYSTEM_POWER_STATE_POWERING_OFF
  | SYSTEM_POWER_STATE_OTHER string

datatype reset_value =
    RESET_ON
  | RESET_FORCE_OFF
  | RESET_FORCE_RESTART
  | RESET_NMI
  | RESET_OTHER string

datatype boot_device = PXE | DISK | CDROM | BIOS

datatype boot_source_target =
    BOOT_SOURCE_TARGET_PXE
  | BOOT_SOURCE_TARGET_HDD
  | BOOT_SOURCE_TARGET_CD
  | BOOT_SOURCE_TARGET_BIOS_SETUP
  | BOOT_SOURCE_TARGET_OTHER string

datatype boot_source_enabled =
    BOOT_SOURCE_ENABLED_ONCE
  | BOOT_SOURCE_ENABLED_CONTINUOUS
  | BOOT_SOURCE_ENABLED_OTHER string

text \<open>
  Exceptions are values. \<open>SushyError\<close> carries the text that formatting it with
  \<^verbatim>\<open>%(error)s\<close> produces; \<open>RedfishError\<close> carries the message it was built from
  and nothing else.
\<close>

datatype exn =
    SushyError string
  | RedfishError string
  | RedfishConnectionError string
  | MissingParameterValue string
  | InvalidParameterValue string
  | ExclusiveLockRequired
  | OtherException string

section \<open>The remote system handle\<close>

text \<open>
  The handle is an object of the client library. It is modelled the way the unit tests stub
  it: an attribute \<open>power_state\<close> that is read (reading an attribute of a Python object may
  itself raise, so the read yields an exception or a value), a method \<open>reset_system\<close> that
  records the call it receives and then returns or raises as the handle is set up to, and
  the list of the calls received so far. The attribute \<open>boot\<close> and the method
  \<open>set_system_boot_source\<close> serve the management adapter in the same way.
\<close>

datatype vendor_call =
    Reset_system "reset_value option"
  | Set_system_boot_source "boot_source_target option" boot_source_enabled

record boot_attribute =
  target :: boot_source_target
  enabled :: boot_source_enabled

record system =
  power_state :: "exn + system_power_state"
  boot :: boot_attribute
  reset_system_raises :: "reset_value option \<Rightarrow> exn option"
  set_system_boot_source_raises :: "boot_source_target option \<Rightarrow> boot_source_enabled \<Rightarrow> exn option"
  calls :: "vendor_call list"

definition reset_system :: "system \<Rightarrow> reset_value option \<Rightarrow> (exn + unit) \<times> system" where
  "reset_system s v =
     ((case reset_system_raises s v of Some e \<Rightarrow> Inl e | None \<Rightarrow> Inr ()),
      s\<lparr>calls := calls s @ [Reset_system v]\<rparr>)"

definition set_system_boot_source ::
  "system \<Rightarrow> boot_source_target option \<Rightarrow> boot_source_enabled \<Rightarrow> (exn + unit) \<times> system" where
  "set_system_boot_source s tgt en =
     ((case set_system_boot_source_raises s tgt en of Some e \<Rightarrow> Inl e | None \<Rightarrow> Inr ()),
      s\<lparr>calls := calls s @ [Set_system_boot_source tgt en]\<rparr>)"

section \<open>Nodes, tasks and the connection helper\<close>

record node =
  uuid :: string

record task =
  node :: node
  shared :: bool

record world =
  get_system_raises :: "node \<Rightarrow> exn option"
  systems :: "node \<Rightarrow> system"
  LOG :: "string list"

text \<open>
  Modelled from the spec: \<^verbatim>\<open>redfish_utils.get_system\<close> is not among the sources. By
  section 6 of the specification it either raises (a connection failure, a missing or
  invalid parameter) or returns the handle of the node's remote system; which of the two
  happens for a node is a parameter of the world.
\<close>

definition get_system :: "world \<Rightarrow> node \<Rightarrow> exn + system" where
  "get_system w n =
     (case get_system_raises w n of Some e \<Rightarrow> Inl e | None \<Rightarrow> Inr (systems w n))"

definition put_system :: "world \<Rightarrow> node \<Rightarrow> system \<Rightarrow> world" where
  "put_system w n s = w\<lparr>systems := (systems w)(n := s)\<rparr>"

text \<open>
  The decorator \<^verbatim>\<open>task_manager.require_exclusive_lock\<close> of the host framework refuses a
  task that holds only a shared lock before the decorated method runs.
\<close>

definition require_exclusive_lock ::
  "(world \<Rightarrow> task \<Rightarrow> (exn + 'a) \<times> world) \<Rightarrow> world \<Rightarrow> task \<Rightarrow> (exn + 'a) \<times> world" where
  "require_exclusive_lock f w t =
     (if shared t then (Inl ExclusiveLockRequired, w) else f w t)"

section \<open>The power adapter (power.py)\<close>

text \<open>
  The two module-level dictionaries, as association lists in the order of the dictionary
  displays; \<^verbatim>\<open>d.get(k)\<close> is \<open>map_of d k\<close> and \<^verbatim>\<open>list(d)\<close> is \<open>map fst d\<close> (a
  dictionary iterates over its keys in insertion order). The methods take the world and the
  task; \<^verbatim>\<open>self\<close> has no state, the parameter \<^verbatim>\<open>timeout\<close> is not used by the driver,
  and the message catalogue function \<^verbatim>\<open>_\<close> returns its argument.
\<close>

definition GET_POWER_STATE_MAP :: "(system_power_state \<times> power_state) list" where
  "GET_POWER_STATE_MAP =
     [(SYSTEM_POWER_STATE_ON, POWER_ON),
      (SYSTEM_POWER_STATE_POWERING_ON, POWER_ON),
      (SYSTEM_POWER_STATE_OFF, POWER_OFF),
      (SYSTEM_POWER_STATE_POWERING_OFF, POWER_OFF)]"

definition SET_POWER_STATE_MAP :: "(power_state \<times> reset_value) list" where
  "SET_POWER_STATE_MAP =
     [(POWER_ON, RESET_ON),
      (POWER_OFF, RESET_FORCE_OFF),
      (REBOOT, RESET_FORCE_RESTART)]"

definition get_power_state :: "world \<Rightarrow> task \<Rightarrow> exn + power_state option" where
  "get_power_state w t =
     (case get_system w (node t) of
        Inl e \<Rightarrow> Inl e
      | Inr s \<Rightarrow>
          (case power_state s of
             Inl e \<Rightarrow> Inl e
           | Inr v \<Rightarrow> Inr (map_of GET_POWER_STATE_MAP v)))"

text \<open>
  The \<^verbatim>\<open>except sushy.exceptions.SushyError\<close> clause shared by the commands: a
  \<open>SushyError\<close> is formatted into the message, the message is logged, and a
  \<open>RedfishError\<close> built from the message is raised; anything else passes through.
\<close>

definition set_power_state_body :: "world \<Rightarrow> task \<Rightarrow> power_state \<Rightarrow> (exn + unit) \<times> world" where
  "set_power_state_body w t ps =
     (case get_system w (node t) of
        Inl e \<Rightarrow> (Inl e, w)
      | Inr s \<Rightarrow>
          (case reset_system s (map_of SET_POWER_STATE_MAP ps) of
             (r, s') \<Rightarrow>
               (let w' = put_system w (node t) s' in
                case r of
                  Inl (SushyError e) \<Rightarrow>
                    (let error_msg = ''Redfish set power state failed for node ''
                                       @ uuid (node t) @ ''. Error: '' @ e
                     in (Inl (RedfishError error_msg), w'\<lparr>LOG := LOG w' @ [error_msg]\<rparr>))
                | _ \<Rightarrow> (r, w'))))"

definition set_power_state :: "world \<Rightarrow> task \<Rightarrow> power_state \<Rightarrow> (exn + unit) \<times> world" where
  "set_power_state w t ps = require_exclusive_lock (\<lambda>w t. set_power_state_body w t ps) w t"

definition reboot_body :: "world \<Rightarrow> task \<Rightarrow> (exn + unit) \<times> world" where
  "reboot_body w t =
     (case get_system w (node t) of
        Inl e \<Rightarrow> (Inl e, w)
      | Inr s \<Rightarrow>
          (case power_state s of
             Inl e \<Rightarrow> (Inl e, w)
           | Inr v \<Rightarrow>
               (let current_power_state = map_of GET_POWER_STATE_MAP v in
                case (if current_power_state = Some POWER_ON
                      then reset_system s (map_of SET_POWER_STATE_MAP REBOOT)
                      else reset_system s (map_of SET_POWER_STATE_MAP POWER_ON)) of
                  (r, s') \<Rightarrow>
                    (let w' = put_system w (node t) s' in
                     case r of
                       Inl (SushyError e) \<Rightarrow>
                         (let error_msg = ''Redfish reboot failed for node ''
                                            @ uuid (node t) @ ''. Error: '' @ e
                          in (Inl (RedfishError error_msg), w'\<lparr>LOG := LOG w' @ [error_msg]\<rparr>))
                     | _ \<Rightarrow> (r, w')))))"

definition reboot :: "world \<Rightarrow> task \<Rightarrow> (exn + unit) \<times> world" where
  "reboot w t = require_exclusive_lock reboot_body w t"

definition get_supported_power_states :: "task \<Rightarrow> power_state list" where
  "get_supported_power_states t = map fst SET_POWER_STATE_MAP"

section \<open>The management adapter\<close>

text \<open>
  Modelled from the spec: \<^verbatim>\<open>management.py\<close> is not among the sources, only its unit
  tests are. The definitions of this section follow section 4.2 of the specification:
  \<open>set_boot_device\<close> translates the device through the table PXE to PXE, DISK to HDD,
  CDROM to CD, BIOS to BIOS_SETUP and the persistence flag through True to CONTINUOUS,
  False to ONCE, and issues one combined write; \<open>get_boot_device\<close> reads the reported
  boot attribute and translates the target through the inverse table and the enabled flag
  through CONTINUOUS to True, everything else to False; \<open>inject_nmi\<close> issues the NMI
  reset command unconditionally. Failures of the vendor call are normalised as in the power
  adapter, with the message prefixes the unit tests match.
\<close>

definition BOOT_DEVICE_MAP_REV :: "(boot_device \<times> boot_source_target) list" where
  "BOOT_DEVICE_MAP_REV =
     [(PXE, BOOT_SOURCE_TARGET_PXE),
      (DISK, BOOT_SOURCE_TARGET_HDD),
      (CDROM, BOOT_SOURCE_TARGET_CD),
      (BIOS, BOOT_SOURCE_TARGET_BIOS_SETUP)]"

definition BOOT_DEVICE_MAP :: "(boot_source_target \<times> boot_device) list" where
  "BOOT_DEVICE_MAP = map (\<lambda>(d, v). (v, d)) BOOT_DEVICE_MAP_REV"

definition set_boot_device_body ::
  "world \<Rightarrow> task \<Rightarrow> boot_device \<Rightarrow> bool \<Rightarrow> (exn + unit) \<times> world" where
  "set_boot_device_body w t device persistent =
     (case get_system w (node t) of
        Inl e \<Rightarrow> (Inl e, w)
      | Inr s \<Rightarrow>
          (case set_system_boot_source s (map_of BOOT_DEVICE_MAP_REV device)
                  (if persistent then BOOT_SOURCE_ENABLED_CONTINUOUS
                   else BOOT_SOURCE_ENABLED_ONCE) of
             (r, s') \<Rightarrow>
               (let w' = put_system w (node t) s' in
                case r of
                  Inl (SushyError e) \<Rightarrow>
                    (let error_msg = ''Redfish set boot device failed for node ''
                                       @ uuid (node t) @ ''. Error: '' @ e
                     in (Inl (RedfishError error_msg), w'\<lparr>LOG := LOG w' @ [error_msg]\<rparr>))
                | _ \<Rightarrow> (r, w'))))"

definition set_boot_device ::
  "world \<Rightarrow> task \<Rightarrow> boot_device \<Rightarrow> bool \<Rightarrow> (exn + unit) \<times> world" where
  "set_boot_device w t device persistent =
     require_exclusive_lock (\<lambda>w t. set_boot_device_body w t device persistent) w t"

record boot_device_info =
  boot_device :: "boot_device option"
  persistent :: bool

definition get_boot_device :: "world \<Rightarrow> task \<Rightarrow> exn + boot_device_info" where
  "get_boot_device w t =
     (case get_system w (node t) of
        Inl e \<Rightarrow> Inl e
      | Inr s \<Rightarrow>
          Inr \<lparr>boot_device = map_of BOOT_DEVICE_MAP (target (boot s)),
               persistent = (enabled (boot s) = BOOT_SOURCE_ENABLED_CONTINUOUS)\<rparr>)"

definition inject_nmi_body :: "world \<Rightarrow> task \<Rightarrow> (exn + unit) \<times> world" where
  "inject_nmi_body w t =
     (case get_system w (node t) of
        Inl e \<Rightarrow> (Inl e, w)
      | Inr s \<Rightarrow>
          (case reset_system s (Some RESET_NMI) of
             (r, s') \<Rightarrow>
               (let w' = put_system w (node t) s' in
                case r of
                  Inl (SushyError e) \<Rightarrow>
                    (let error_msg = ''Redfish inject NMI failed for node ''
                                       @ uuid (node t) @ ''. Error: '' @ e
                     in (Inl (RedfishError error_msg), w'\<lparr>LOG := LOG w' @ [error_msg]\<rparr>))
                | _ \<Rightarrow> (r, w'))))"

definition inject_nmi :: "world \<Rightarrow> task \<Rightarrow> (exn + unit) \<times> world" where
  "inject_nmi w t = require_exclusive_lock inject_nmi_body w t"

section \<open>The properties table and its copies\<close>

text \<open>
  \<open>get_properties\<close> returns \<^verbatim>\<open>redfish_utils.COMMON_PROPERTIES.copy()\<close>. Dictionaries are
  mutable objects, so they live in a store: a list of dictionaries, a reference being an
  index into it. The table itself is not among the sources; its reference and its content
  are parameters of the module state. \<^verbatim>\<open>copy()\<close> allocates a new dictionary with the
  entries of the old one (the entries are strings, which are immutable), and a caller who
  holds a reference may replace the content of that dictionary by any other.
\<close>

type_synonym properties = "(string \<times> string) list"

record module_state =
  heap :: "properties list"
  COMMON_PROPERTIES :: nat

definition dict_copy :: "module_state \<Rightarrow> nat \<Rightarrow> nat \<times> module_state" where
  "dict_copy m a = (length (heap m), m\<lparr>heap := heap m @ [heap m ! a]\<rparr>)"

definition get_properties :: "module_state \<Rightarrow> nat \<times> module_state" where
  "get_properties m = dict_copy m (COMMON_PROPERTIES m)"

definition dict_mutate :: "module_state \<Rightarrow> nat \<Rightarrow> properties \<Rightarrow> module_state" where
  "dict_mutate m a d = m\<lparr>heap := (heap m)[a := d]\<rparr>"

text \<open>
  A caller of \<open>get_properties\<close> holds the references the calls have returned, in the order
  of the calls, and does two things any number of times: it calls \<open>get_properties\<close> again,
  or it replaces the content of one of the dictionaries it was handed
  (\<open>Mutate_returned i d\<close> gives the content \<open>d\<close> to the dictionary returned by call
  number \<open>i\<close>; a caller holds no other reference). \<open>table_kept\<close> is what such a run
  preserves: the table's reference and content, and that every returned reference is
  allocated and is not the table's.
\<close>

datatype caller_step = Call_get_properties | Mutate_returned nat properties

fun caller :: "module_state \<Rightarrow> nat list \<Rightarrow> caller_step list \<Rightarrow> module_state \<times> nat list" where
  "caller m rs [] = (m, rs)"
| "caller m rs (Call_get_properties # steps) =
     (case get_properties m of (a, m') \<Rightarrow> caller m' (rs @ [a]) steps)"
| "caller m rs (Mutate_returned i d # steps) =
     (if i < length rs then caller (dict_mutate m (rs ! i) d) rs steps
      else caller m rs steps)"

definition table_kept :: "module_state \<Rightarrow> module_state \<Rightarrow> nat list \<Rightarrow> bool" where
  "table_kept m0 m rs \<longleftrightarrow>
     COMMON_PROPERTIES m = COMMON_PROPERTIES m0 \<and>
     COMMON_PROPERTIES m0 < length (heap m) \<and>
     heap m ! COMMON_PROPERTIES m0 = heap m0 ! COMMON_PROPERTIES m0 \<and>
     list_all (\<lambda>r. r < length (heap m) \<and> r \<noteq> COMMON_PROPERTIES m0) rs"

section \<open>What reaches the caller of a command\<close>

text \<open>
  A Python 3 exception remembers how it was raised. A \<^verbatim>\<open>raise\<close> statement without a
  \<^verbatim>\<open>from\<close> clause that runs inside an \<^verbatim>\<open>except\<close> clause leaves \<^verbatim>\<open>__cause__\<close> empty and
  stores the exception being handled in \<^verbatim>\<open>__context__\<close>; \<^verbatim>\<open>raise ... from\<close> sets
  \<^verbatim>\<open>__cause__\<close>. The result type \<open>exn + unit\<close> of the commands above keeps only the
  exception that was raised. An \<open>outcome\<close> keeps the way it was raised as well: the command
  returns, or an exception of the decorator, of the connection helper or of the client
  passes through it, or the command raises an exception of its own while it handles one it
  has caught, or it raises one with an explicit cause. \<open>result_of\<close> forgets the difference
  again; \<open>exc_cause\<close> and \<open>exc_context\<close> are what the command has put into the two
  attributes of the exception that reaches the caller.
\<close>

datatype 'a outcome =
    Returns 'a
  | Propagates exn
  | Raises_while_handling exn exn
  | Raises_from exn exn


fun exc_cause :: "'a outcome \<Rightarrow> exn option" where
  "exc_cause (Raises_from new c) = Some c"
| "exc_cause _ = None"






section \<open>Concrete handles, nodes and worlds\<close>

definition stub_node :: node where
  "stub_node = \<lparr>uuid = ''1be26c0b-03f2-4d2e-ae87-c02d7f33c123''\<rparr>"

definition stub_task :: task where
  "stub_task = \<lparr>node = stub_node, shared = False\<rparr>"

definition stub_system :: "exn + system_power_state \<Rightarrow> exn option \<Rightarrow> system" where
  "stub_system ps failure =
     \<lparr>power_state = ps,
      boot = \<lparr>target = BOOT_SOURCE_TARGET_PXE, enabled = BOOT_SOURCE_ENABLED_CONTINUOUS\<rparr>,
      reset_system_raises = (\<lambda>_. failure),
      set_system_boot_source_raises = (\<lambda>_ _. failure),
      calls = []\<rparr>"

definition stub_world :: "exn + system_power_state \<Rightarrow> exn option \<Rightarrow> world" where
  "stub_world ps failure =
     \<lparr>get_system_raises = (\<lambda>_. None),
      systems = (\<lambda>_. stub_system ps failure),
      LOG = []\<rparr>"

definition stub_module :: module_state where
  "stub_module =
     \<lparr>heap = [[(''redfish_address'', ''The URL address to the Redfish controller.'')]],
      COMMON_PROPERTIES = 0\<rparr>"

section \<open>Properties of the power adapter\<close>

text \<open>
  C9. For every task (every node, whatever its state), \<open>get_supported_power_states\<close> returns
  the list of \<open>POWER_ON\<close>, \<open>POWER_OFF\<close> and \<open>REBOOT\<close>, in this order.
\<close>

theorem get_supported_power_states_fixed:
  "get_supported_power_states t = [POWER_ON, POWER_OFF, REBOOT]"
  by (simp add: get_supported_power_states_def SET_POWER_STATE_MAP_def)

lemmas command_defs =
  require_exclusive_lock_def reset_system_def set_system_boot_source_def put_system_def Let_def

text \<open>
  C3. When the handle of the task's node is obtained and reports a vendor power state,
  \<open>get_power_state\<close> returns the abstract state of the fixed table: ON and POWERING_ON
  give \<open>POWER_ON\<close>, OFF and POWERING_OFF give \<open>POWER_OFF\<close>, and every other vendor value
  gives no state (\<open>None\<close>).
\<close>

theorem get_power_state_table:
  assumes "get_system w (node t) = Inr s" and "power_state s = Inr v"
  shows "get_power_state w t =
           Inr (case v of
                  SYSTEM_POWER_STATE_ON \<Rightarrow> Some POWER_ON
                | SYSTEM_POWER_STATE_POWERING_ON \<Rightarrow> Some POWER_ON
                | SYSTEM_POWER_STATE_OFF \<Rightarrow> Some POWER_OFF
                | SYSTEM_POWER_STATE_POWERING_OFF \<Rightarrow> Some POWER_OFF
                | SYSTEM_POWER_STATE_OTHER x \<Rightarrow> None)"
  using assms
  by (cases v) (simp_all add: get_power_state_def GET_POWER_STATE_MAP_def)

theorem get_power_state_table_witness:
  "get_power_state (stub_world (Inr SYSTEM_POWER_STATE_POWERING_OFF) None) stub_task
     = Inr (Some POWER_OFF)"
  using get_power_state_table
          [of "stub_world (Inr SYSTEM_POWER_STATE_POWERING_OFF) None" stub_task
              "stub_system (Inr SYSTEM_POWER_STATE_POWERING_OFF) None"
              SYSTEM_POWER_STATE_POWERING_OFF]
  by (simp add: get_system_def stub_world_def stub_system_def stub_task_def)

text \<open>
  C4. Under an exclusive lock and with the handle obtained, \<open>set_power_state\<close> with target
  \<open>POWER_ON\<close>, \<open>POWER_OFF\<close> or \<open>REBOOT\<close> appends exactly one call to the calls the handle
  has received, \<open>reset_system\<close> with RESET_ON, RESET_FORCE_OFF or RESET_FORCE_RESTART
  respectively, and leaves every other handle as it was.
\<close>

theorem set_power_state_single_reset:
  assumes "\<not> shared t" and "get_system w (node t) = Inr s"
  shows "systems (snd (set_power_state w t POWER_ON))
           = (systems w)(node t := s\<lparr>calls := calls s @ [Reset_system (Some RESET_ON)]\<rparr>)
       \<and> systems (snd (set_power_state w t POWER_OFF))
           = (systems w)(node t := s\<lparr>calls := calls s @ [Reset_system (Some RESET_FORCE_OFF)]\<rparr>)
       \<and> systems (snd (set_power_state w t REBOOT))
           = (systems w)(node t := s\<lparr>calls := calls s @ [Reset_system (Some RESET_FORCE_RESTART)]\<rparr>)"
  using assms
  by (simp add: set_power_state_def set_power_state_body_def command_defs
        SET_POWER_STATE_MAP_def split: option.splits sum.splits exn.splits)

theorem set_power_state_single_reset_witness:
  "calls (systems (snd (set_power_state (stub_world (Inr SYSTEM_POWER_STATE_OFF) None) stub_task POWER_ON)) stub_node)
     = [Reset_system (Some RESET_ON)]
   \<and> calls (systems (snd (set_power_state (stub_world (Inr SYSTEM_POWER_STATE_OFF) None) stub_task POWER_OFF)) stub_node)
     = [Reset_system (Some RESET_FORCE_OFF)]
   \<and> calls (systems (snd (set_power_state (stub_world (Inr SYSTEM_POWER_STATE_OFF) None) stub_task REBOOT)) stub_node)
     = [Reset_system (Some RESET_FORCE_RESTART)]"
  using set_power_state_single_reset
          [of stub_task "stub_world (Inr SYSTEM_POWER_STATE_OFF) None"
              "stub_system (Inr SYSTEM_POWER_STATE_OFF) None"]
  by (simp add: get_system_def stub_world_def stub_system_def stub_task_def)

text \<open>
  C1, at the vendor state POWERING_ON. The handle reports POWERING_ON; \<open>reboot\<close> compares
  the translated state with \<open>POWER_ON\<close>, and POWERING_ON translates to \<open>POWER_ON\<close>, so the
  one reset call carries RESET_FORCE_RESTART and not RESET_ON.
\<close>

theorem reboot_powering_on_counterexample:
  "calls (systems (snd (reboot (stub_world (Inr SYSTEM_POWER_STATE_POWERING_ON) None) stub_task)) stub_node)
     = [Reset_system (Some RESET_FORCE_RESTART)]
   \<and> calls (systems (snd (reboot (stub_world (Inr SYSTEM_POWER_STATE_POWERING_ON) None) stub_task)) stub_node)
     \<noteq> [Reset_system (Some RESET_ON)]"
  by (simp add: reboot_def reboot_body_def command_defs get_system_def
        stub_world_def stub_system_def stub_task_def
        SET_POWER_STATE_MAP_def GET_POWER_STATE_MAP_def)

text \<open>
  C1, as amended. Under an exclusive lock, with the handle obtained and its power state
  read, \<open>reboot\<close> appends exactly one call to the calls the handle has received: a reset
  with RESET_FORCE_RESTART when the vendor state translates to \<open>POWER_ON\<close> (it is ON or
  POWERING_ON), and a reset with RESET_ON for every other vendor state (OFF, POWERING_OFF
  or an unmapped value). Every other handle stays as it was.
\<close>

theorem reboot_single_reset:
  assumes "\<not> shared t" and "get_system w (node t) = Inr s" and "power_state s = Inr v"
  shows "systems (snd (reboot w t))
           = (systems w)(node t := s\<lparr>calls := calls s @
                [Reset_system (Some (if v = SYSTEM_POWER_STATE_ON \<or> v = SYSTEM_POWER_STATE_POWERING_ON
                                     then RESET_FORCE_RESTART else RESET_ON))]\<rparr>)"
  using assms
  by (cases v)
     (simp_all add: reboot_def reboot_body_def command_defs
        SET_POWER_STATE_MAP_def GET_POWER_STATE_MAP_def split: option.splits sum.splits exn.splits)

theorem reboot_single_reset_witness:
  "calls (systems (snd (reboot (stub_world (Inr SYSTEM_POWER_STATE_POWERING_OFF) None) stub_task)) stub_node)
     = [Reset_system (Some RESET_ON)]"
  using reboot_single_reset
          [of stub_task "stub_world (Inr SYSTEM_POWER_STATE_POWERING_OFF) None"
              "stub_system (Inr SYSTEM_POWER_STATE_POWERING_OFF) None" SYSTEM_POWER_STATE_POWERING_OFF]
  by (simp add: get_system_def stub_world_def stub_system_def stub_task_def)

text \<open>
  C8. The two lookups are \<^verbatim>\<open>dict.get\<close> and so never fail. Under an exclusive lock and
  with the handle obtained, \<open>set_power_state\<close> with a target outside \<open>POWER_ON\<close>,
  \<open>POWER_OFF\<close>, \<open>REBOOT\<close> appends exactly the call \<open>reset_system(None)\<close>, and its outcome
  is the outcome of that call: it returns when the call returns, and an error can only be
  the one the call raised (normalised when it is a vendor protocol error). With the handle
  obtained and its state read, \<open>get_power_state\<close> returns \<open>None\<close> for every vendor state
  outside the four of the table.
\<close>

theorem unmapped_lookup_yields_None:
  assumes "get_system w (node t) = Inr s"
  shows "(\<not> shared t \<and> ps \<notin> {POWER_ON, POWER_OFF, REBOOT} \<longrightarrow>
            systems (snd (set_power_state w t ps))
              = (systems w)(node t := s\<lparr>calls := calls s @ [Reset_system None]\<rparr>)
            \<and> fst (set_power_state w t ps)
              = (case reset_system_raises s None of
                   None \<Rightarrow> Inr ()
                 | Some (SushyError e) \<Rightarrow>
                     Inl (RedfishError (''Redfish set power state failed for node ''
                                          @ uuid (node t) @ ''. Error: '' @ e))
                 | Some x \<Rightarrow> Inl x))
       \<and> (power_state s = Inr v \<and>
          v \<notin> {SYSTEM_POWER_STATE_ON, SYSTEM_POWER_STATE_POWERING_ON,
                SYSTEM_POWER_STATE_OFF, SYSTEM_POWER_STATE_POWERING_OFF} \<longrightarrow>
            get_power_state w t = Inr None)"
proof (intro conjI impI)
  assume a: "\<not> shared t \<and> ps \<notin> {POWER_ON, POWER_OFF, REBOOT}"
  then have m: "map_of SET_POWER_STATE_MAP ps = None"
    by (simp add: SET_POWER_STATE_MAP_def)
  from a assms m show "systems (snd (set_power_state w t ps))
              = (systems w)(node t := s\<lparr>calls := calls s @ [Reset_system None]\<rparr>)"
    by (simp add: set_power_state_def set_power_state_body_def command_defs
          split: option.splits sum.splits exn.splits)
  from a assms m show "fst (set_power_state w t ps)
              = (case reset_system_raises s None of
                   None \<Rightarrow> Inr ()
                 | Some (SushyError e) \<Rightarrow>
                     Inl (RedfishError (''Redfish set power state failed for node ''
                                          @ uuid (node t) @ ''. Error: '' @ e))
                 | Some x \<Rightarrow> Inl x)"
    by (simp add: set_power_state_def set_power_state_body_def command_defs
          split: option.splits sum.splits exn.splits)
next
  assume "power_state s = Inr v \<and>
          v \<notin> {SYSTEM_POWER_STATE_ON, SYSTEM_POWER_STATE_POWERING_ON,
                SYSTEM_POWER_STATE_OFF, SYSTEM_POWER_STATE_POWERING_OFF}"
  with assms show "get_power_state w t = Inr None"
    by (simp add: get_power_state_def GET_POWER_STATE_MAP_def)
qed

theorem unmapped_lookup_yields_None_witness:
  "set_power_state (stub_world (Inr (SYSTEM_POWER_STATE_OTHER ''Paused'')) None) stub_task (OTHER_STATE ''soft power off'')
     = (Inr (),
        put_system (stub_world (Inr (SYSTEM_POWER_STATE_OTHER ''Paused'')) None) stub_node
          ((stub_system (Inr (SYSTEM_POWER_STATE_OTHER ''Paused'')) None)\<lparr>calls := [Reset_system None]\<rparr>))
   \<and> get_power_state (stub_world (Inr (SYSTEM_POWER_STATE_OTHER ''Paused'')) None) stub_task = Inr None"
  using unmapped_lookup_yields_None
          [of "stub_world (Inr (SYSTEM_POWER_STATE_OTHER ''Paused'')) None" stub_task
              "stub_system (Inr (SYSTEM_POWER_STATE_OTHER ''Paused'')) None"
              "OTHER_STATE ''soft power off''" "SYSTEM_POWER_STATE_OTHER ''Paused''"]
  by (simp add: get_system_def stub_world_def stub_system_def stub_task_def
        set_power_state_def set_power_state_body_def command_defs SET_POWER_STATE_MAP_def)

section \<open>Error normalisation\<close>









text \<open>
  C5. Under an exclusive lock and with the handle obtained, when the vendor call issued by
  \<open>set_power_state\<close>, \<open>reboot\<close>, \<open>set_boot_device\<close> or \<open>inject_nmi\<close> raises a vendor
  protocol error, the operation ends in a \<open>RedfishError\<close>, and the handle has received
  exactly one more call than before: the call with the translated arguments, not repeated.
\<close>

theorem failing_command_attempted_once:
  assumes "\<not> shared t" and "get_system w (node t) = Inr s"
  shows "(reset_system_raises s (map_of SET_POWER_STATE_MAP ps) = Some (SushyError e) \<longrightarrow>
            (\<exists>m. fst (set_power_state w t ps) = Inl (RedfishError m)) \<and>
            calls (systems (snd (set_power_state w t ps)) (node t))
              = calls s @ [Reset_system (map_of SET_POWER_STATE_MAP ps)])
       \<and> (power_state s = Inr v \<and>
          reset_system_raises s
            (Some (if v = SYSTEM_POWER_STATE_ON \<or> v = SYSTEM_POWER_STATE_POWERING_ON
                   then RESET_FORCE_RESTART else RESET_ON)) = Some (SushyError e) \<longrightarrow>
            (\<exists>m. fst (reboot w t) = Inl (RedfishError m)) \<and>
            calls (systems (snd (reboot w t)) (node t))
              = calls s @ [Reset_system
                  (Some (if v = SYSTEM_POWER_STATE_ON \<or> v = SYSTEM_POWER_STATE_POWERING_ON
                         then RESET_FORCE_RESTART else RESET_ON))])
       \<and> (set_system_boot_source_raises s (map_of BOOT_DEVICE_MAP_REV d)
            (if p then BOOT_SOURCE_ENABLED_CONTINUOUS else BOOT_SOURCE_ENABLED_ONCE)
              = Some (SushyError e) \<longrightarrow>
            (\<exists>m. fst (set_boot_device w t d p) = Inl (RedfishError m)) \<and>
            calls (systems (snd (set_boot_device w t d p)) (node t))
              = calls s @ [Set_system_boot_source (map_of BOOT_DEVICE_MAP_REV d)
                  (if p then BOOT_SOURCE_ENABLED_CONTINUOUS else BOOT_SOURCE_ENABLED_ONCE)])
       \<and> (reset_system_raises s (Some RESET_NMI) = Some (SushyError e) \<longrightarrow>
            (\<exists>m. fst (inject_nmi w t) = Inl (RedfishError m)) \<and>
            calls (systems (snd (inject_nmi w t)) (node t))
              = calls s @ [Reset_system (Some RESET_NMI)])"
proof (intro conjI impI)
  assume "reset_system_raises s (map_of SET_POWER_STATE_MAP ps) = Some (SushyError e)"
  with assms show "\<exists>m. fst (set_power_state w t ps) = Inl (RedfishError m)"
    and "calls (systems (snd (set_power_state w t ps)) (node t))
           = calls s @ [Reset_system (map_of SET_POWER_STATE_MAP ps)]"
    by (simp_all add: set_power_state_def set_power_state_body_def command_defs)
next
  assume a: "power_state s = Inr v \<and>
          reset_system_raises s
            (Some (if v = SYSTEM_POWER_STATE_ON \<or> v = SYSTEM_POWER_STATE_POWERING_ON
                   then RESET_FORCE_RESTART else RESET_ON)) = Some (SushyError e)"
  with assms show "\<exists>m. fst (reboot w t) = Inl (RedfishError m)"
    by (cases v)
       (simp_all add: reboot_def reboot_body_def command_defs
          SET_POWER_STATE_MAP_def GET_POWER_STATE_MAP_def)
  from a assms show "calls (systems (snd (reboot w t)) (node t))
              = calls s @ [Reset_system
                  (Some (if v = SYSTEM_POWER_STATE_ON \<or> v = SYSTEM_POWER_STATE_POWERING_ON
                         then RESET_FORCE_RESTART else RESET_ON))]"
    by (cases v)
       (simp_all add: reboot_def reboot_body_def command_defs
          SET_POWER_STATE_MAP_def GET_POWER_STATE_MAP_def)
next
  assume "set_system_boot_source_raises s (map_of BOOT_DEVICE_MAP_REV d)
            (if p then BOOT_SOURCE_ENABLED_CONTINUOUS else BOOT_SOURCE_ENABLED_ONCE)
              = Some (SushyError e)"
  with assms show "\<exists>m. fst (set_boot_device w t d p) = Inl (RedfishError m)"
    and "calls (systems (snd (set_boot_device w t d p)) (node t))
              = calls s @ [Set_system_boot_source (map_of BOOT_DEVICE_MAP_REV d)
                  (if p then BOOT_SOURCE_ENABLED_CONTINUOUS else BOOT_SOURCE_ENABLED_ONCE)]"
    by (simp_all add: set_boot_device_def set_boot_device_body_def command_defs)
next
  assume "reset_system_raises s (Some RESET_NMI) = Some (SushyError e)"
  with assms show "\<exists>m. fst (inject_nmi w t) = Inl (RedfishError m)"
    and "calls (systems (snd (inject_nmi w t)) (node t)) = calls s @ [Reset_system (Some RESET_NMI)]"
    by (simp_all add: inject_nmi_def inject_nmi_body_def command_defs)
qed

theorem failing_command_attempted_once_witness:
  "calls (systems (snd (set_power_state (stub_world (Inr SYSTEM_POWER_STATE_ON) (Some (SushyError ''boom''))) stub_task POWER_ON)) stub_node)
     = [Reset_system (Some RESET_ON)]
   \<and> calls (systems (snd (reboot (stub_world (Inr SYSTEM_POWER_STATE_ON) (Some (SushyError ''boom''))) stub_task)) stub_node)
     = [Reset_system (Some RESET_FORCE_RESTART)]
   \<and> calls (systems (snd (set_boot_device (stub_world (Inr SYSTEM_POWER_STATE_ON) (Some (SushyError ''boom''))) stub_task PXE False)) stub_node)
     = [Set_system_boot_source (Some BOOT_SOURCE_TARGET_PXE) BOOT_SOURCE_ENABLED_ONCE]
   \<and> calls (systems (snd (inject_nmi (stub_world (Inr SYSTEM_POWER_STATE_ON) (Some (SushyError ''boom''))) stub_task)) stub_node)
     = [Reset_system (Some RESET_NMI)]
   \<and> (\<exists>m. fst (set_power_state (stub_world (Inr SYSTEM_POWER_STATE_ON) (Some (SushyError ''boom''))) stub_task POWER_ON) = Inl (RedfishError m))
   \<and> (\<exists>m. fst (reboot (stub_world (Inr SYSTEM_POWER_STATE_ON) (Some (SushyError ''boom''))) stub_task) = Inl (RedfishError m))
   \<and> (\<exists>m. fst (set_boot_device (stub_world (Inr SYSTEM_POWER_STATE_ON) (Some (SushyError ''boom''))) stub_task PXE False) = Inl (RedfishError m))
   \<and> (\<exists>m. fst (inject_nmi (stub_world (Inr SYSTEM_POWER_STATE_ON) (Some (SushyError ''boom''))) stub_task) = Inl (RedfishError m))"
  using failing_command_attempted_once
          [of stub_task "stub_world (Inr SYSTEM_POWER_STATE_ON) (Some (SushyError ''boom''))"
              "stub_system (Inr SYSTEM_POWER_STATE_ON) (Some (SushyError ''boom''))"
              POWER_ON "''boom''" SYSTEM_POWER_STATE_ON PXE False]
  by (simp add: get_system_def stub_world_def stub_system_def stub_task_def
        SET_POWER_STATE_MAP_def BOOT_DEVICE_MAP_REV_def)

section \<open>Properties of the management adapter\<close>

text \<open>
  C6. Under an exclusive lock and with the handle obtained, \<open>set_boot_device\<close> appends
  exactly one call to those the handle has received, \<open>set_system_boot_source\<close> with the
  target of the table (PXE to PXE, DISK to HDD, CDROM to CD, BIOS to BIOS_SETUP) and with
  the flag ONCE when \<open>persistent\<close> is false (its default) and CONTINUOUS when it is true.
\<close>

theorem set_boot_device_single_write:
  assumes "\<not> shared t" and "get_system w (node t) = Inr s"
  shows "systems (snd (set_boot_device w t d p))
           = (systems w)(node t := s\<lparr>calls := calls s @
                [Set_system_boot_source
                   (Some (case d of PXE \<Rightarrow> BOOT_SOURCE_TARGET_PXE
                                  | DISK \<Rightarrow> BOOT_SOURCE_TARGET_HDD
                                  | CDROM \<Rightarrow> BOOT_SOURCE_TARGET_CD
                                  | BIOS \<Rightarrow> BOOT_SOURCE_TARGET_BIOS_SETUP))
                   (if p then BOOT_SOURCE_ENABLED_CONTINUOUS else BOOT_SOURCE_ENABLED_ONCE)]\<rparr>)"
  using assms
  by (cases d)
     (simp_all add: set_boot_device_def set_boot_device_body_def command_defs
        BOOT_DEVICE_MAP_REV_def split: option.splits sum.splits exn.splits)

theorem set_boot_device_single_write_witness:
  "calls (systems (snd (set_boot_device (stub_world (Inr SYSTEM_POWER_STATE_ON) None) stub_task DISK False)) stub_node)
     = [Set_system_boot_source (Some BOOT_SOURCE_TARGET_HDD) BOOT_SOURCE_ENABLED_ONCE]
   \<and> calls (systems (snd (set_boot_device (stub_world (Inr SYSTEM_POWER_STATE_ON) None) stub_task DISK True)) stub_node)
     = [Set_system_boot_source (Some BOOT_SOURCE_TARGET_HDD) BOOT_SOURCE_ENABLED_CONTINUOUS]"
  using set_boot_device_single_write
          [of stub_task "stub_world (Inr SYSTEM_POWER_STATE_ON) None"
              "stub_system (Inr SYSTEM_POWER_STATE_ON) None" DISK False]
        set_boot_device_single_write
          [of stub_task "stub_world (Inr SYSTEM_POWER_STATE_ON) None"
              "stub_system (Inr SYSTEM_POWER_STATE_ON) None" DISK True]
  by (simp add: get_system_def stub_world_def stub_system_def stub_task_def)

text \<open>
  C7. With the handle obtained, \<open>get_boot_device\<close> returns a result whose boot device is
  the abstract device that the boot-device table sends to the reported target (none when no
  device is sent there), and whose persistence is true exactly when the reported enabled
  flag is CONTINUOUS.
\<close>

theorem get_boot_device_reverse:
  assumes "get_system w (node t) = Inr s"
  shows "\<exists>r. get_boot_device w t = Inr r
           \<and> (\<forall>d. (boot_device r = Some d)
                    = (map_of BOOT_DEVICE_MAP_REV d = Some (target (boot s))))
           \<and> persistent r = (enabled (boot s) = BOOT_SOURCE_ENABLED_CONTINUOUS)"
proof -
  have "(map_of BOOT_DEVICE_MAP v = Some d) = (map_of BOOT_DEVICE_MAP_REV d = Some v)" for v d
    by (cases v; cases d) (simp_all add: BOOT_DEVICE_MAP_def BOOT_DEVICE_MAP_REV_def)
  with assms show ?thesis
    by (simp add: get_boot_device_def)
qed

theorem get_boot_device_reverse_witness:
  "get_boot_device (stub_world (Inr SYSTEM_POWER_STATE_ON) None) stub_task
     = Inr \<lparr>boot_device = Some PXE, persistent = True\<rparr>"
  using get_boot_device_reverse
          [of "stub_world (Inr SYSTEM_POWER_STATE_ON) None" stub_task
              "stub_system (Inr SYSTEM_POWER_STATE_ON) None"]
  by (simp add: get_system_def stub_world_def stub_system_def stub_task_def
        get_boot_device_def BOOT_DEVICE_MAP_def BOOT_DEVICE_MAP_REV_def)

section \<open>Properties of the properties table\<close>

lemma table_kept_get_properties:
  assumes "table_kept m0 m rs" and "get_properties m = (a, m')"
  shows "table_kept m0 m' (rs @ [a])"
  using assms
  by (auto simp: table_kept_def get_properties_def dict_copy_def nth_append list_all_iff)

lemma table_kept_dict_mutate:
  assumes "table_kept m0 m rs" and "i < length rs"
  shows "table_kept m0 (dict_mutate m (rs ! i) d) rs"
  using assms
  by (auto simp: table_kept_def dict_mutate_def list_all_length)

lemma table_kept_caller:
  "table_kept m0 m rs \<Longrightarrow> caller m rs steps = (m', rs') \<Longrightarrow> table_kept m0 m' rs'"
proof (induction m rs steps rule: caller.induct)
  case (1 m rs)
  then show ?case by simp
next
  case (2 m rs steps)
  then show ?case
    by (auto split: prod.splits dest: table_kept_get_properties)
next
  case (3 m rs i d steps)
  then show ?case
    by (auto split: if_splits dest: table_kept_dict_mutate)
qed

text \<open>
  C10. Let the table's reference be allocated, and let a caller make any sequence of
  \<open>get_properties\<close> calls and of replacements of the content of dictionaries those calls
  returned. Afterwards the table is the same dictionary with the same content, and the
  next \<open>get_properties\<close> call returns a reference that is neither the table nor any
  dictionary returned before, to a dictionary with the table's original content.
\<close>

theorem get_properties_fresh_copy:
  assumes "COMMON_PROPERTIES m < length (heap m)" and "caller m [] steps = (m', rs)"
  shows "COMMON_PROPERTIES m' = COMMON_PROPERTIES m
       \<and> heap m' ! COMMON_PROPERTIES m' = heap m ! COMMON_PROPERTIES m
       \<and> fst (get_properties m') \<notin> set (COMMON_PROPERTIES m # rs)
       \<and> heap (snd (get_properties m')) ! fst (get_properties m') = heap m ! COMMON_PROPERTIES m"
proof -
  from assms(1) have "table_kept m m []"
    by (simp add: table_kept_def)
  then have "table_kept m m' rs"
    using assms(2) by (rule table_kept_caller)
  then show ?thesis
    by (auto simp: table_kept_def get_properties_def dict_copy_def list_all_iff)
qed

theorem get_properties_fresh_copy_witness:
  "caller stub_module [] [Call_get_properties, Mutate_returned 0 [(''redfish_address'', ''changed'')]]
     = (\<lparr>heap = [[(''redfish_address'', ''The URL address to the Redfish controller.'')],
                 [(''redfish_address'', ''changed'')]],
         COMMON_PROPERTIES = 0\<rparr>, [1])
   \<and> heap (snd (get_properties (fst (caller stub_module []
         [Call_get_properties, Mutate_returned 0 [(''redfish_address'', ''changed'')]]))))
       ! fst (get_properties (fst (caller stub_module []
         [Call_get_properties, Mutate_returned 0 [(''redfish_address'', ''changed'')]])))
     = [(''redfish_address'', ''The URL address to the Redfish controller.'')]"
  using get_properties_fresh_copy
          [of stub_module "[Call_get_properties, Mutate_returned 0 [(''redfish_address'', ''changed'')]]"
              "fst (caller stub_module [] [Call_get_properties, Mutate_returned 0 [(''redfish_address'', ''changed'')]])"
              "snd (caller stub_module [] [Call_get_properties, Mutate_returned 0 [(''redfish_address'', ''changed'')]])"]
  by (simp add: stub_module_def get_properties_def dict_copy_def dict_mutate_def)

end
